theory Spec2Isabelle
  imports Main
begin

section \<open>Data model of package auth\<close>

text \<open>
  A Go interface value is a dynamic type together with a value of that type. The
  dynamic types that matter here are the predeclared \<^verbatim>\<open>string\<close>, the unexported
  \<^verbatim>\<open>auth.contextKey\<close> (declared \<^verbatim>\<open>type contextKey string\<close>) and every other
  comparable type, identified by its name. The value is kept in a textual
  representation. Two interface values are equal in Go iff their dynamic types are
  identical and their values are equal, which is the equality of this datatype.
\<close>

datatype go_type = string_type | contextKey_type | other_type string

datatype key = Key go_type string

text \<open>
  \<^verbatim>\<open>type AuthenticatedUser struct { ID, Username string; Roles []string;
  Metadata map[string]interface{} }\<close>. The slice \<^verbatim>\<open>Roles\<close> is a list; the metadata
  values are opaque typed values.
\<close>

record AuthenticatedUser =
  ID :: string
  Username :: string
  Roles :: "string list"
  Metadata :: "string \<rightharpoonup> go_type \<times> string"

text \<open>
  A \<^verbatim>\<open>*AuthenticatedUser\<close> is \<open>None\<close> for the nil pointer and \<open>Some u\<close> for a
  pointer to a struct whose fields are \<open>u\<close>.

  The values a context can carry (\<^verbatim>\<open>any\<close>): the nil interface, a value of dynamic
  type \<^verbatim>\<open>*AuthenticatedUser\<close> (possibly the nil pointer of that type), or a value
  of another dynamic type.
\<close>

datatype any = NilInterface | UserPtr "AuthenticatedUser option" | Typed go_type string

datatype panic =
  NilParent  \<comment> \<open>\<^verbatim>\<open>panic("cannot create context from nil parent")\<close>\<close>
| NilDereference  \<comment> \<open>method call on a nil interface value\<close>
| NilContext  \<comment> \<open>\<^verbatim>\<open>panic("nil context")\<close> of \<^verbatim>\<open>(*http.Request).WithContext\<close>\<close>
| OtherPanic string  \<comment> \<open>a panic raised by code of another package, with its message\<close>

text \<open>
  Package \<^verbatim>\<open>context\<close>. \<^verbatim>\<open>context.Context\<close> is an interface, so a non-nil context
  is one of: an empty root (\<^verbatim>\<open>context.Background()\<close>, \<^verbatim>\<open>context.TODO()\<close>); a
  \<^verbatim>\<open>valueCtx\<close> holding its parent, a key and a value; or a value of any other type
  that implements the interface, given by what its \<^verbatim>\<open>Value\<close> method does on each
  key (it returns a value or panics). Cancellation and deadline contexts pass every
  key of another package on to their parent and are left out. A variable of the
  interface type may also be nil, which is \<open>None\<close>.
\<close>

datatype "context" =
  emptyCtx
| valueCtx "context" key any
| foreignCtx "key \<Rightarrow> panic + any"

type_synonym Context = "context option"

text \<open>
  \<^verbatim>\<open>(*valueCtx).Value\<close> and the lookup loop of package context: the nearest
  enclosing association of the key wins, the empty root answers nil, and on a
  context of another implementation the loop returns what its \<^verbatim>\<open>Value\<close> method
  returns.
\<close>

fun Value :: "context \<Rightarrow> key \<Rightarrow> panic + any" where
  "Value emptyCtx k = Inr NilInterface"
| "Value (valueCtx parent k' v) k = (if k' = k then Inr v else Value parent k)"
| "Value (foreignCtx method) k = method k"

text \<open>\<^verbatim>\<open>ctx.Value(key)\<close> on a variable of interface type: a nil receiver panics.\<close>

definition Context_Value :: "Context \<Rightarrow> key \<Rightarrow> panic + any" where
  "Context_Value ctx k = (case ctx of None \<Rightarrow> Inl NilDereference | Some c \<Rightarrow> Value c k)"

text \<open>
  \<^verbatim>\<open>context.WithValue(parent, key, val)\<close>: panics on a nil parent, otherwise
  returns \<^verbatim>\<open>&valueCtx{parent, key, val}\<close>. Its other two panics (nil key, key of a
  type that is not comparable) cannot arise with the keys of type \<open>key\<close>.
\<close>

definition WithValue :: "Context \<Rightarrow> key \<Rightarrow> any \<Rightarrow> panic + Context" where
  "WithValue parent k v =
     (case parent of None \<Rightarrow> Inl NilParent | Some p \<Rightarrow> Inr (Some (valueCtx p k v)))"

text \<open>
  \<^verbatim>\<open>type contextKey string\<close> and
  \<^verbatim>\<open>const userContextKey contextKey = "authenticated_user"\<close>.
\<close>

definition userContextKey :: key where
  "userContextKey = Key contextKey_type ''authenticated_user''"

text \<open>
  The two-result type assertion \<^verbatim>\<open>v.(*AuthenticatedUser)\<close>: it never panics; it
  yields the pointer and true when the dynamic type of \<open>v\<close> is
  \<^verbatim>\<open>*AuthenticatedUser\<close>, the zero value (nil) and false otherwise, also for the nil
  interface.
\<close>

fun assert_user_ptr :: "any \<Rightarrow> AuthenticatedUser option \<times> bool" where
  "assert_user_ptr (UserPtr p) = (p, True)"
| "assert_user_ptr NilInterface = (None, False)"
| "assert_user_ptr (Typed t s) = (None, False)"

text \<open>
  \<^verbatim>\<open>func UserFromContext(ctx context.Context) (*AuthenticatedUser, bool) {
      user, ok := ctx.Value(userContextKey).(*AuthenticatedUser)
      return user, ok }\<close>
\<close>

definition UserFromContext :: "Context \<Rightarrow> panic + AuthenticatedUser option \<times> bool" where
  "UserFromContext ctx =
     (case Context_Value ctx userContextKey of
        Inl p \<Rightarrow> Inl p
      | Inr v \<Rightarrow> Inr (assert_user_ptr v))"

text \<open>
  \<^verbatim>\<open>func SetUserContext(ctx context.Context, user *AuthenticatedUser) context.Context {
      return context.WithValue(ctx, userContextKey, user) }\<close>
\<close>

definition SetUserContext :: "Context \<Rightarrow> AuthenticatedUser option \<Rightarrow> panic + Context" where
  "SetUserContext ctx user = WithValue ctx userContextKey (UserPtr user)"

text \<open>
  Whether a context is made by package context alone: an empty root under a chain
  of \<^verbatim>\<open>valueCtx\<close>, with no other implementation of the interface on the chain.
\<close>

fun package_context :: "context \<Rightarrow> bool" where
  "package_context emptyCtx = True"
| "package_context (valueCtx parent k v) = package_context parent"
| "package_context (foreignCtx method) = False"

text \<open>
  Whether some \<^verbatim>\<open>valueCtx\<close> on the chain of a context is keyed by
  \<open>userContextKey\<close>. Every context returned by \<open>SetUserContext\<close>, and every context
  derived from one with \<^verbatim>\<open>context.WithValue\<close>, is of this kind.
\<close>

fun carries_user :: "context \<Rightarrow> bool" where
  "carries_user emptyCtx = False"
| "carries_user (valueCtx parent k v) = (k = userContextKey \<or> carries_user parent)"
| "carries_user (foreignCtx method) = False"

subsection \<open>Contexts as heap objects\<close>

text \<open>
  At run time a context is a pointer: \<^verbatim>\<open>context.WithValue\<close> allocates a new
  \<^verbatim>\<open>valueCtx\<close> struct that holds the parent pointer and returns its address. The
  heap is the list of the context objects allocated so far, the most recent first;
  the address of an object is the number of objects allocated before it, so an
  allocation never reuses an address.
\<close>

type_synonym addr = nat

datatype ctx_object =
  emptyCtx_object
| valueCtx_object addr key any
| foreignCtx_object "key \<Rightarrow> panic + any"

type_synonym heap = "ctx_object list"

text \<open>
  The context a pointer denotes: the object at the address, with the parent pointer
  followed in turn. A parent exists before its child is allocated, so it is looked
  up among the older objects. \<open>None\<close>: there is no context object at the address.
\<close>

fun context_at :: "heap \<Rightarrow> addr \<Rightarrow> context option" where
  "context_at [] a = None"
| "context_at (obj # h) a =
     (if a = length h then
        (case obj of
           emptyCtx_object \<Rightarrow> Some emptyCtx
         | valueCtx_object p k v \<Rightarrow>
             (case context_at h p of None \<Rightarrow> None | Some c \<Rightarrow> Some (valueCtx c k v))
         | foreignCtx_object method \<Rightarrow> Some (foreignCtx method))
      else context_at h a)"

text \<open>
  \<^verbatim>\<open>context.WithValue\<close> and \<open>SetUserContext\<close> on the heap: the new heap and the
  pointer returned; a nil parent panics before anything is allocated.
\<close>

definition WithValue_heap :: "heap \<Rightarrow> addr option \<Rightarrow> key \<Rightarrow> any \<Rightarrow> panic + heap \<times> addr option" where
  "WithValue_heap h parent k v =
     (case parent of
        None \<Rightarrow> Inl NilParent
      | Some p \<Rightarrow> Inr (valueCtx_object p k v # h, Some (length h)))"

definition SetUserContext_heap ::
    "heap \<Rightarrow> addr option \<Rightarrow> AuthenticatedUser option \<Rightarrow> panic + heap \<times> addr option" where
  "SetUserContext_heap h ctx user = WithValue_heap h ctx userContextKey (UserPtr user)"

subsection \<open>Errors\<close>

text \<open>
  \<^verbatim>\<open>type AuthError struct { Code int; Message string; Err error }\<close>. An \<^verbatim>\<open>error\<close> is
  an interface value: nil (\<open>None\<close>), a plain error carrying its text, or an
  \<open>AuthError\<close>, which is itself an error.
\<close>

datatype error = errorString string | authError AuthError
  and AuthError = AuthError (Code: int) (Message: string) (Err: "error option")

text \<open>\<^verbatim>\<open>func (e AuthError) Error() string { return e.Message }\<close>\<close>

definition AuthError_Error :: "AuthError \<Rightarrow> string" where
  "AuthError_Error e = Message e"

text \<open>\<^verbatim>\<open>func (e AuthError) Unwrap() error { return e.Err }\<close>\<close>

definition AuthError_Unwrap :: "AuthError \<Rightarrow> error option" where
  "AuthError_Unwrap e = Err e"

text \<open>The constants of \<^verbatim>\<open>net/http\<close> that the package uses.\<close>

definition StatusUnauthorized :: int where
  "StatusUnauthorized = 401"

definition StatusForbidden :: int where
  "StatusForbidden = 403"

definition ErrInvalidCredentials :: AuthError where
  "ErrInvalidCredentials = AuthError StatusUnauthorized ''invalid credentials'' None"

definition ErrExpiredCredentials :: AuthError where
  "ErrExpiredCredentials = AuthError StatusUnauthorized ''expired credentials'' None"

definition ErrMissingCredentials :: AuthError where
  "ErrMissingCredentials = AuthError StatusUnauthorized ''crendentials not provided'' None"

definition ErrAccessDenied :: AuthError where
  "ErrAccessDenied = AuthError StatusForbidden ''access denied'' None"

subsection \<open>Requests, handlers and options\<close>

text \<open>
  What the package uses of \<^verbatim>\<open>net/http\<close>. A request carries its headers and its
  context (\<^verbatim>\<open>r.Context()\<close> is never nil). An \<^verbatim>\<open>http.Handler\<close> answers a request
  with a response, or panics.
\<close>

record request =
  Header :: "string \<rightharpoonup> string list"
  req_ctx :: "context"

record response =
  StatusCode :: int
  Body :: string

type_synonym Handler = "request \<Rightarrow> panic + response"

text \<open>\<^verbatim>\<open>r.WithContext(ctx)\<close>: a copy of the request with the new context.\<close>

definition WithContext :: "request \<Rightarrow> Context \<Rightarrow> panic + request" where
  "WithContext r ctx = (case ctx of None \<Rightarrow> Inl NilContext | Some c \<Rightarrow> Inr (r\<lparr>req_ctx := c\<rparr>))"

text \<open>
  \<^verbatim>\<open>type AuthOptions struct { CredentialsDuration time.Duration;
  UnauthorizedHandler, ForbiddenHandler http.Handler;
  CredentialsExtractor func(r *http.Request) (interface{}, error) }\<close>. A handler or
  function field that was not set is nil (\<open>None\<close>).
\<close>

record AuthOptions =
  CredentialsDuration :: int
  UnauthorizedHandler :: "Handler option"
  ForbiddenHandler :: "Handler option"
  CredentialsExtractor :: "(request \<Rightarrow> error + any) option"

text \<open>
  The method \<^verbatim>\<open>Authenticate(ctx, r) (*AuthenticatedUser, error)\<close> that a scheme
  supplies: the error, or the principal.
\<close>

type_synonym Authenticate = "Context \<Rightarrow> request \<Rightarrow> error + AuthenticatedUser"

text \<open>
  Modelled from the spec: the handler that runs when authentication fails.
  \<^verbatim>\<open>src/auth.go\<close> declares the field \<^verbatim>\<open>UnauthorizedHandler\<close> and has no code that
  reads it or fills it in. Spec 4.3: "invoked in place of the protected handler
  when authentication fails. Default: a generic 401 response."
\<close>

definition unauthorizedHandler :: "AuthOptions \<Rightarrow> Handler" where
  "unauthorizedHandler opts =
     (case UnauthorizedHandler opts of
        None \<Rightarrow> (\<lambda>r. Inr \<lparr>StatusCode = StatusUnauthorized, Body = []\<rparr>)
      | Some handler \<Rightarrow> handler)"

text \<open>
  Modelled from the spec: the handler that runs when the role check fails.
  \<^verbatim>\<open>src/auth.go\<close> declares the field \<^verbatim>\<open>ForbiddenHandler\<close> and has no code that
  reads it or fills it in. Spec 4.3: "invoked when authentication succeeds but role
  authorization fails. Default: a generic 403 response."
\<close>

definition forbiddenHandler :: "AuthOptions \<Rightarrow> Handler" where
  "forbiddenHandler opts =
     (case ForbiddenHandler opts of
        None \<Rightarrow> (\<lambda>r. Inr \<lparr>StatusCode = StatusForbidden, Body = []\<rparr>)
      | Some handler \<Rightarrow> handler)"

text \<open>
  Modelled from the spec: the states of the middleware dispatch. \<^verbatim>\<open>src/auth.go\<close>
  declares \<^verbatim>\<open>Middleware\<close> and \<^verbatim>\<open>MiddlewareWithRoles\<close> in the interface
  \<^verbatim>\<open>Authenticator\<close> and implements neither. Spec 4.5: "Authenticating \<rightarrow>
  {Authenticated, Rejected}; Authenticated \<rightarrow> {Authorized, Denied} when role-gated".
  \<open>Crashed\<close> is a panic on the way.
\<close>

datatype state =
  Rejected
| Authenticated request AuthenticatedUser
| Authorized request
| Denied request
| Crashed panic

text \<open>
  Modelled from the spec: the step from Authenticating. Spec 4.5: "\<^verbatim>\<open>Authenticate\<close>
  returns any of the three credential errors \<rightarrow> invoke \<^verbatim>\<open>UnauthorizedHandler\<close>,
  short-circuit" and "\<^verbatim>\<open>Authenticate\<close> succeeds \<rightarrow> principal attached to context",
  the attachment being \<open>SetUserContext\<close> on the context of the request.
\<close>

definition authenticating :: "Authenticate \<Rightarrow> request \<Rightarrow> state" where
  "authenticating authenticate r =
     (case authenticate (Some (req_ctx r)) r of
        Inl err \<Rightarrow> Rejected
      | Inr user \<Rightarrow>
          (case SetUserContext (Some (req_ctx r)) (Some user) of
             Inl p \<Rightarrow> Crashed p
           | Inr ctx' \<Rightarrow>
               (case WithContext r ctx' of
                  Inl p \<Rightarrow> Crashed p
                | Inr r' \<Rightarrow> Authenticated r' user)))"

text \<open>
  Modelled from the spec: the role check. Spec 4.2: "denies unless the principal's
  \<^verbatim>\<open>Roles\<close> intersects the required set in at least one element"; spec 4.5: "role
  intersection non-empty \<rightarrow> continue to downstream handler" and "role intersection
  empty \<rightarrow> invoke \<^verbatim>\<open>ForbiddenHandler\<close>, short-circuit".
\<close>

definition roles_intersect :: "string list \<Rightarrow> string list \<Rightarrow> bool" where
  "roles_intersect granted required = list_ex (\<lambda>role. role \<in> set required) granted"

definition authorizing :: "string list \<Rightarrow> state \<Rightarrow> state" where
  "authorizing required s =
     (case s of
        Authenticated r' user \<Rightarrow>
          (if roles_intersect (Roles user) required then Authorized r' else Denied r')
      | _ \<Rightarrow> s)"

text \<open>
  Modelled from the spec: the handler that each state of the dispatch runs. Spec
  4.5: \<open>Rejected\<close> runs \<^verbatim>\<open>UnauthorizedHandler\<close>, \<open>Denied\<close> runs
  \<^verbatim>\<open>ForbiddenHandler\<close>, and the downstream handler runs after \<open>Authorized\<close> or
  \<open>Authenticated\<close>, on the request that carries the principal.
\<close>

definition serve :: "AuthOptions \<Rightarrow> Handler \<Rightarrow> request \<Rightarrow> state \<Rightarrow> panic + response" where
  "serve opts next r s =
     (case s of
        Rejected \<Rightarrow> unauthorizedHandler opts r
      | Authenticated r' user \<Rightarrow> next r'
      | Authorized r' \<Rightarrow> next r'
      | Denied r' \<Rightarrow> forbiddenHandler opts r'
      | Crashed p \<Rightarrow> Inl p)"

text \<open>
  Modelled from the spec: \<^verbatim>\<open>Middleware() func(http.Handler) http.Handler\<close>, of
  which \<^verbatim>\<open>src/auth.go\<close> has the declaration only. Spec 4.2: "runs \<^verbatim>\<open>Authenticate\<close>;
  on success attaches the principal to the request context and continues; on
  failure invokes \<^verbatim>\<open>UnauthorizedHandler\<close> and does not continue".
\<close>

definition Middleware :: "AuthOptions \<Rightarrow> Authenticate \<Rightarrow> Handler \<Rightarrow> Handler" where
  "Middleware opts authenticate next r = serve opts next r (authenticating authenticate r)"

text \<open>
  Modelled from the spec: \<^verbatim>\<open>MiddlewareWithRoles(roles ...string)
  func(http.Handler) http.Handler\<close>, of which \<^verbatim>\<open>src/auth.go\<close> has the declaration
  only. Spec 4.2: "as \<^verbatim>\<open>Middleware\<close>, plus: after successful authentication, denies
  (invokes \<^verbatim>\<open>ForbiddenHandler\<close>) unless the principal's \<^verbatim>\<open>Roles\<close> intersects the
  required set in at least one element".
\<close>

definition MiddlewareWithRoles ::
    "AuthOptions \<Rightarrow> Authenticate \<Rightarrow> string list \<Rightarrow> Handler \<Rightarrow> Handler" where
  "MiddlewareWithRoles opts authenticate roles next r =
     serve opts next r (authorizing roles (authenticating authenticate r))"

section \<open>Context propagation\<close>

lemma UserFromContext_Some:
  "UserFromContext (Some c)
     = (case Value c userContextKey of Inl p \<Rightarrow> Inl p | Inr v \<Rightarrow> Inr (assert_user_ptr v))"
  by (simp add: UserFromContext_def Context_Value_def)

lemma SetUserContext_Some:
  "SetUserContext (Some c) u = Inr (Some (valueCtx c userContextKey (UserPtr u)))"
  by (simp add: SetUserContext_def WithValue_def)

text \<open>
  Both functions panic on a nil \<^verbatim>\<open>context.Context\<close>, which package context
  forbids passing.
\<close>

lemma UserFromContext_nil: "UserFromContext None = Inl NilDereference"
  by (simp add: UserFromContext_def Context_Value_def)

lemma SetUserContext_nil: "SetUserContext None u = Inl NilParent"
  by (simp add: SetUserContext_def WithValue_def)

lemma Value_absent:
  "package_context c \<Longrightarrow> \<not> carries_user c \<Longrightarrow> Value c userContextKey = Inr NilInterface"
  by (induction c) auto

text \<open>
  C1. Round trip: for every context \<open>c\<close> and every user pointer \<open>u\<close>,
  \<open>SetUserContext\<close> returns a context, and \<open>UserFromContext\<close> on that context
  returns \<open>u\<close> with the presence flag set.
\<close>

theorem UserFromContext_SetUserContext:
  "\<exists>ctx'. SetUserContext (Some c) u = Inr ctx' \<and> UserFromContext ctx' = Inr (u, True)"
  by (simp add: SetUserContext_Some UserFromContext_Some)

text \<open>
  C2, as stated, fails on three contexts that never passed through
  \<open>SetUserContext\<close>: on the nil \<^verbatim>\<open>context.Context\<close> the method call panics; a
  context of another implementation whose \<^verbatim>\<open>Value\<close> method answers every key with
  a user makes \<open>UserFromContext\<close> return that user with the flag true; and one
  whose \<^verbatim>\<open>Value\<close> method panics makes \<open>UserFromContext\<close> panic.
\<close>

theorem UserFromContext_absent_fails:
  "UserFromContext None = Inl NilDereference
   \<and> UserFromContext (Some (foreignCtx (\<lambda>k. Inr (UserPtr (Some \<lparr>ID = ''1'', Username = ''ana'',
        Roles = [''admin''], Metadata = Map.empty\<rparr>)))))
     = Inr (Some \<lparr>ID = ''1'', Username = ''ana'', Roles = [''admin''], Metadata = Map.empty\<rparr>, True)
   \<and> UserFromContext (Some (foreignCtx (\<lambda>k. Inl (OtherPanic ''no values''))))
     = Inl (OtherPanic ''no values'')"
  by (simp add: UserFromContext_def Context_Value_def)

text \<open>
  C2, amended. On every non-nil context made by package context alone whose chain
  holds no association under \<open>userContextKey\<close>, \<open>UserFromContext\<close> returns normally
  (no panic), with the nil pointer and the flag false.
\<close>

theorem UserFromContext_absent:
  "package_context c \<Longrightarrow> \<not> carries_user c \<Longrightarrow> UserFromContext (Some c) = Inr (None, False)"
  by (simp add: UserFromContext_Some Value_absent)

theorem UserFromContext_absent_witness:
  "package_context (valueCtx emptyCtx (Key string_type ''authenticated_user'')
        (UserPtr (Some \<lparr>ID = ''1'', Username = ''ana'', Roles = [''admin''], Metadata = Map.empty\<rparr>)))
   \<and> \<not> carries_user (valueCtx emptyCtx (Key string_type ''authenticated_user'')
        (UserPtr (Some \<lparr>ID = ''1'', Username = ''ana'', Roles = [''admin''], Metadata = Map.empty\<rparr>)))
   \<and> UserFromContext (Some (valueCtx emptyCtx (Key string_type ''authenticated_user'')
        (UserPtr (Some \<lparr>ID = ''1'', Username = ''ana'', Roles = [''admin''], Metadata = Map.empty\<rparr>))))
     = Inr (None, False)"
proof -
  have p: "package_context (valueCtx emptyCtx (Key string_type ''authenticated_user'')
        (UserPtr (Some \<lparr>ID = ''1'', Username = ''ana'', Roles = [''admin''], Metadata = Map.empty\<rparr>)))"
    by simp
  have h: "\<not> carries_user (valueCtx emptyCtx (Key string_type ''authenticated_user'')
        (UserPtr (Some \<lparr>ID = ''1'', Username = ''ana'', Roles = [''admin''], Metadata = Map.empty\<rparr>)))"
    by (simp add: userContextKey_def)
  show ?thesis using p h UserFromContext_absent [OF p h] by simp
qed

text \<open>
  C10. Attaching the nil pointer: \<open>UserFromContext\<close> then returns the nil pointer
  with the flag true, the same flag as for a real user attached to the same
  context, whereas the context without an association gives the nil pointer with
  the flag false.
\<close>

theorem UserFromContext_nil_user:
  "(\<exists>ctx'. SetUserContext (Some c) None = Inr ctx' \<and> UserFromContext ctx' = Inr (None, True))
   \<and> (\<exists>ctx'. SetUserContext (Some c) (Some u) = Inr ctx'
          \<and> UserFromContext ctx' = Inr (Some u, True))
   \<and> UserFromContext (Some emptyCtx) = Inr (None, False)"
  by (simp add: SetUserContext_Some UserFromContext_Some)

text \<open>
  C5. The key is of the private type \<^verbatim>\<open>contextKey\<close>, not a plain string: it differs
  from every key of type string; a value stored with \<open>WithValue\<close> under a plain
  string key (\<^verbatim>\<open>"authenticated_user"\<close> or any other) leaves the result of
  \<open>UserFromContext\<close> as it was; and after \<open>SetUserContext\<close> every plain string key
  still reads what it read before.
\<close>

theorem userContextKey_private:
  "userContextKey \<noteq> Key string_type s
   \<and> (\<exists>ctx'. WithValue (Some c) (Key string_type s) v = Inr ctx'
          \<and> UserFromContext ctx' = UserFromContext (Some c))
   \<and> (\<exists>ctx'. SetUserContext (Some c) u = Inr ctx'
          \<and> Context_Value ctx' (Key string_type s) = Context_Value (Some c) (Key string_type s))"
  by (simp add: userContextKey_def WithValue_def SetUserContext_def UserFromContext_def
      Context_Value_def)

text \<open>A context object sits at an address below the size of the heap.\<close>

lemma context_at_allocated: "context_at h a = Some c \<Longrightarrow> a < length h"
  by (induction h) (auto split: if_splits)

lemma context_at_older: "a < length h \<Longrightarrow> context_at (obj # h) a = context_at h a"
  by simp

lemma context_at_fresh: "context_at h (length h) = None"
proof (cases "context_at h (length h)")
  case None
  then show ?thesis .
next
  case (Some c)
  then have "length h < length h" by (rule context_at_allocated)
  then show ?thesis by simp
qed

text \<open>
  C6. \<open>SetUserContext\<close> does not change its input: when it returns, the heap is
  the old heap with one new object in front; the input pointer denotes the context
  it denoted before, so \<open>UserFromContext\<close> on it returns what it returned before;
  every context object that existed denotes what it denoted; and the pointer
  returned is a new address that denotes the derived context.
\<close>

theorem SetUserContext_frame:
  assumes "SetUserContext_heap h ctx u = Inr (h', ctx')"
  shows "\<exists>a a'. ctx = Some a \<and> ctx' = Some a'
           \<and> h' = valueCtx_object a userContextKey (UserPtr u) # h
           \<and> context_at h' a = context_at h a
           \<and> UserFromContext (context_at h' a) = UserFromContext (context_at h a)
           \<and> (\<forall>b. b < length h \<longrightarrow> context_at h' b = context_at h b)
           \<and> context_at h a' = None
           \<and> (\<forall>c. context_at h a = Some c \<longrightarrow>
                 SetUserContext (Some c) u = Inr (context_at h' a'))"
proof -
  from assms obtain a where ctx: "ctx = Some a"
    by (cases ctx) (auto simp: SetUserContext_heap_def WithValue_heap_def)
  with assms have h': "h' = valueCtx_object a userContextKey (UserPtr u) # h"
    and ctx': "ctx' = Some (length h)"
    by (auto simp: SetUserContext_heap_def WithValue_heap_def)
  have same: "context_at h' a = context_at h a"
  proof (cases "a < length h")
    case True
    then show ?thesis by (simp add: h')
  next
    case False
    then have "context_at h a = None"
      using context_at_allocated [of h a] by (cases "context_at h a") auto
    then show ?thesis by (simp add: h' context_at_fresh)
  qed
  have older: "\<forall>b. b < length h \<longrightarrow> context_at h' b = context_at h b"
    by (simp add: h')
  have derived: "\<forall>c. context_at h a = Some c \<longrightarrow>
      SetUserContext (Some c) u = Inr (context_at h' (length h))"
    by (simp add: h' SetUserContext_Some)
  from ctx ctx' h' same older derived context_at_fresh [of h] show ?thesis
    by simp
qed

theorem SetUserContext_frame_witness:
  "SetUserContext_heap [emptyCtx_object] (Some 0) (Some \<lparr>ID = ''1'', Username = ''ana'',
       Roles = [''admin''], Metadata = Map.empty\<rparr>)
     = Inr ([valueCtx_object 0 userContextKey (UserPtr (Some \<lparr>ID = ''1'', Username = ''ana'',
          Roles = [''admin''], Metadata = Map.empty\<rparr>)), emptyCtx_object], Some 1)
   \<and> UserFromContext (context_at [valueCtx_object 0 userContextKey (UserPtr (Some \<lparr>ID = ''1'',
          Username = ''ana'', Roles = [''admin''], Metadata = Map.empty\<rparr>)), emptyCtx_object] 0)
     = UserFromContext (context_at [emptyCtx_object] 0)
   \<and> UserFromContext (context_at [emptyCtx_object] 0) = Inr (None, False)"
proof -
  have run: "SetUserContext_heap [emptyCtx_object] (Some 0) (Some \<lparr>ID = ''1'', Username = ''ana'',
       Roles = [''admin''], Metadata = Map.empty\<rparr>)
     = Inr ([valueCtx_object 0 userContextKey (UserPtr (Some \<lparr>ID = ''1'', Username = ''ana'',
          Roles = [''admin''], Metadata = Map.empty\<rparr>)), emptyCtx_object], Some 1)"
    by (simp add: SetUserContext_heap_def WithValue_heap_def)
  from SetUserContext_frame [OF run] have
    "UserFromContext (context_at [valueCtx_object 0 userContextKey (UserPtr (Some \<lparr>ID = ''1'',
          Username = ''ana'', Roles = [''admin''], Metadata = Map.empty\<rparr>)), emptyCtx_object] 0)
     = UserFromContext (context_at [emptyCtx_object] 0)"
    by simp
  with run show ?thesis by (simp add: UserFromContext_Some)
qed

section \<open>Middleware dispatch\<close>

lemma authenticating_success:
  "authenticate (Some (req_ctx r)) r = Inr u \<Longrightarrow>
   authenticating authenticate r
     = Authenticated (r\<lparr>req_ctx := valueCtx (req_ctx r) userContextKey (UserPtr (Some u))\<rparr>) u"
  by (simp add: authenticating_def SetUserContext_Some WithContext_def)

lemma authenticating_failure:
  "authenticate (Some (req_ctx r)) r = Inl err \<Longrightarrow> authenticating authenticate r = Rejected"
  by (simp add: authenticating_def)

lemma roles_intersect_iff:
  "roles_intersect granted required = (set granted \<inter> set required \<noteq> {})"
  by (auto simp: roles_intersect_def list_ex_iff)

text \<open>
  C4. After a successful authentication of principal \<open>u\<close>, the role-gated
  middleware reaches \<open>Authorized\<close> exactly when the roles of \<open>u\<close> and the required
  roles have an element in common, and \<open>Denied\<close> exactly when they have none; it
  then runs the downstream handler, respectively the forbidden handler, on the
  request that carries \<open>u\<close>. One common role is enough.
\<close>

theorem MiddlewareWithRoles_intersection:
  assumes "authenticate (Some (req_ctx r)) r = Inr u"
  shows "((\<exists>r'. authorizing roles (authenticating authenticate r) = Authorized r')
            = (set (Roles u) \<inter> set roles \<noteq> {}))
       \<and> ((\<exists>r'. authorizing roles (authenticating authenticate r) = Denied r')
            = (set (Roles u) \<inter> set roles = {}))
       \<and> (\<exists>r'. UserFromContext (Some (req_ctx r')) = Inr (Some u, True)
            \<and> MiddlewareWithRoles opts authenticate roles next r
              = (if set (Roles u) \<inter> set roles \<noteq> {} then next r'
                 else forbiddenHandler opts r'))"
proof -
  let ?r' = "r\<lparr>req_ctx := valueCtx (req_ctx r) userContextKey (UserPtr (Some u))\<rparr>"
  have st: "authorizing roles (authenticating authenticate r)
      = (if set (Roles u) \<inter> set roles \<noteq> {} then Authorized ?r' else Denied ?r')"
    using assms by (simp add: authenticating_success authorizing_def roles_intersect_iff)
  have user: "UserFromContext (Some (req_ctx ?r')) = Inr (Some u, True)"
    by (simp add: UserFromContext_Some)
  have run: "MiddlewareWithRoles opts authenticate roles next r
      = (if set (Roles u) \<inter> set roles \<noteq> {} then next ?r' else forbiddenHandler opts ?r')"
    by (simp add: MiddlewareWithRoles_def st serve_def)
  have a: "(\<exists>r'. authorizing roles (authenticating authenticate r) = Authorized r')
      = (set (Roles u) \<inter> set roles \<noteq> {})"
    by (simp add: st)
  have d: "(\<exists>r'. authorizing roles (authenticating authenticate r) = Denied r')
      = (set (Roles u) \<inter> set roles = {})"
    by (simp add: st)
  from user run have "\<exists>r'. UserFromContext (Some (req_ctx r')) = Inr (Some u, True)
      \<and> MiddlewareWithRoles opts authenticate roles next r
        = (if set (Roles u) \<inter> set roles \<noteq> {} then next r' else forbiddenHandler opts r')"
    by blast
  with a d show ?thesis by blast
qed

theorem MiddlewareWithRoles_intersection_witness:
  "(\<exists>r'. authorizing [''admin'', ''editor'']
       (authenticating
         (\<lambda>ctx r. if Header r ''Authorization'' = None then Inl (authError ErrMissingCredentials)
            else Inr \<lparr>ID = ''7'', Username = ''eva'', Roles = [''editor''], Metadata = Map.empty\<rparr>)
         \<lparr>Header = [''Authorization'' \<mapsto> [''Bearer t'']], req_ctx = emptyCtx\<rparr>) = Authorized r')
   \<and> (\<exists>r'. authorizing [''admin'']
       (authenticating
         (\<lambda>ctx r. if Header r ''Authorization'' = None then Inl (authError ErrMissingCredentials)
            else Inr \<lparr>ID = ''7'', Username = ''eva'', Roles = [''editor''], Metadata = Map.empty\<rparr>)
         \<lparr>Header = [''Authorization'' \<mapsto> [''Bearer t'']], req_ctx = emptyCtx\<rparr>) = Denied r')"
proof -
  let ?auth = "\<lambda>(ctx::Context) r. if Header r ''Authorization'' = None
      then Inl (authError ErrMissingCredentials)
      else Inr \<lparr>ID = ''7'', Username = ''eva'', Roles = [''editor''], Metadata = Map.empty\<rparr>"
  let ?r = "\<lparr>Header = [''Authorization'' \<mapsto> [''Bearer t'']], req_ctx = emptyCtx\<rparr>"
  let ?u = "\<lparr>ID = ''7'', Username = ''eva'', Roles = [''editor''], Metadata = Map.empty\<rparr>"
  have h: "?auth (Some (req_ctx ?r)) ?r = Inr ?u" by simp
  have one: "\<exists>r'. authorizing [''admin'', ''editor''] (authenticating ?auth ?r) = Authorized r'"
    using MiddlewareWithRoles_intersection
      [where authenticate = ?auth and r = ?r and u = ?u and roles = "[''admin'', ''editor'']", OF h]
    by simp
  have two: "\<exists>r'. authorizing [''admin''] (authenticating ?auth ?r) = Denied r'"
    using MiddlewareWithRoles_intersection
      [where authenticate = ?auth and r = ?r and u = ?u and roles = "[''admin'']", OF h]
    by simp
  from one two show ?thesis by simp
qed

text \<open>
  C7. With no handler configured, a failed authentication is answered by the
  generic response with status 401, by the plain and by the role-gated middleware,
  and a failed role check by the generic response with status 403.
\<close>

theorem default_failure_handlers:
  assumes "UnauthorizedHandler opts = None" and "ForbiddenHandler opts = None"
  shows "(authenticate (Some (req_ctx r)) r = Inl err \<longrightarrow>
            Middleware opts authenticate next r = Inr \<lparr>StatusCode = 401, Body = []\<rparr>
          \<and> MiddlewareWithRoles opts authenticate roles next r
              = Inr \<lparr>StatusCode = 401, Body = []\<rparr>)
       \<and> (authenticate (Some (req_ctx r)) r = Inr u \<and> set (Roles u) \<inter> set roles = {} \<longrightarrow>
            MiddlewareWithRoles opts authenticate roles next r
              = Inr \<lparr>StatusCode = 403, Body = []\<rparr>)"
proof -
  have rejected: "Middleware opts authenticate next r = Inr \<lparr>StatusCode = 401, Body = []\<rparr>
      \<and> MiddlewareWithRoles opts authenticate roles next r = Inr \<lparr>StatusCode = 401, Body = []\<rparr>"
    if "authenticate (Some (req_ctx r)) r = Inl err"
    using assms(1) that
    by (simp add: Middleware_def MiddlewareWithRoles_def authenticating_failure
        authorizing_def serve_def unauthorizedHandler_def StatusUnauthorized_def)
  have denied: "MiddlewareWithRoles opts authenticate roles next r
      = Inr \<lparr>StatusCode = 403, Body = []\<rparr>"
    if "authenticate (Some (req_ctx r)) r = Inr u" and "set (Roles u) \<inter> set roles = {}"
    using assms(2) that
    by (simp add: MiddlewareWithRoles_def authenticating_success authorizing_def
        roles_intersect_iff serve_def forbiddenHandler_def StatusForbidden_def)
  from rejected denied show ?thesis by blast
qed

theorem default_failure_handlers_witness:
  "Middleware
     \<lparr>CredentialsDuration = 0, UnauthorizedHandler = None, ForbiddenHandler = None,
        CredentialsExtractor = None\<rparr>
     (\<lambda>ctx r. if Header r ''Authorization'' = None then Inl (authError ErrMissingCredentials)
        else Inr \<lparr>ID = ''7'', Username = ''eva'', Roles = [''editor''], Metadata = Map.empty\<rparr>)
     (\<lambda>r. Inr \<lparr>StatusCode = 200, Body = ''ok''\<rparr>)
     \<lparr>Header = Map.empty, req_ctx = emptyCtx\<rparr>
   = Inr \<lparr>StatusCode = 401, Body = []\<rparr>
   \<and> MiddlewareWithRoles
     \<lparr>CredentialsDuration = 0, UnauthorizedHandler = None, ForbiddenHandler = None,
        CredentialsExtractor = None\<rparr>
     (\<lambda>ctx r. if Header r ''Authorization'' = None then Inl (authError ErrMissingCredentials)
        else Inr \<lparr>ID = ''7'', Username = ''eva'', Roles = [''editor''], Metadata = Map.empty\<rparr>)
     [''admin'']
     (\<lambda>r. Inr \<lparr>StatusCode = 200, Body = ''ok''\<rparr>)
     \<lparr>Header = [''Authorization'' \<mapsto> [''Bearer t'']], req_ctx = emptyCtx\<rparr>
   = Inr \<lparr>StatusCode = 403, Body = []\<rparr>"
proof -
  let ?opts = "\<lparr>CredentialsDuration = 0, UnauthorizedHandler = None, ForbiddenHandler = None,
      CredentialsExtractor = None\<rparr>"
  let ?auth = "\<lambda>(ctx::Context) r. if Header r ''Authorization'' = None
      then Inl (authError ErrMissingCredentials)
      else Inr \<lparr>ID = ''7'', Username = ''eva'', Roles = [''editor''], Metadata = Map.empty\<rparr>"
  let ?next = "\<lambda>r::request. Inr \<lparr>StatusCode = 200, Body = ''ok''\<rparr> :: panic + response"
  let ?u = "\<lparr>ID = ''7'', Username = ''eva'', Roles = [''editor''], Metadata = Map.empty\<rparr>"
  have u: "UnauthorizedHandler ?opts = None" and f: "ForbiddenHandler ?opts = None"
    by simp_all
  have one: "Middleware ?opts ?auth ?next \<lparr>Header = Map.empty, req_ctx = emptyCtx\<rparr>
      = Inr \<lparr>StatusCode = 401, Body = []\<rparr>"
    using default_failure_handlers [OF u f, where authenticate = ?auth
        and r = "\<lparr>Header = Map.empty, req_ctx = emptyCtx\<rparr>"
        and err = "authError ErrMissingCredentials" and u = ?u and roles = "[''admin'']"
        and ?next = ?next]
    by simp
  have two: "MiddlewareWithRoles ?opts ?auth [''admin''] ?next
      \<lparr>Header = [''Authorization'' \<mapsto> [''Bearer t'']], req_ctx = emptyCtx\<rparr>
      = Inr \<lparr>StatusCode = 403, Body = []\<rparr>"
    using default_failure_handlers [OF u f, where authenticate = ?auth
        and r = "\<lparr>Header = [''Authorization'' \<mapsto> [''Bearer t'']], req_ctx = emptyCtx\<rparr>"
        and err = "authError ErrMissingCredentials" and u = ?u and roles = "[''admin'']"
        and ?next = ?next]
    by simp
  from one two show ?thesis by simp
qed

section \<open>Data model and errors\<close>

text \<open>
  C3. The four canonical errors carry the status codes 401, 401, 401 and 403.
\<close>

theorem canonical_error_codes:
  "Code ErrMissingCredentials = 401 \<and> Code ErrInvalidCredentials = 401
   \<and> Code ErrExpiredCredentials = 401 \<and> Code ErrAccessDenied = 403"
  by (simp add: ErrMissingCredentials_def ErrInvalidCredentials_def ErrExpiredCredentials_def
      ErrAccessDenied_def StatusUnauthorized_def StatusForbidden_def)

text \<open>
  C9. \<open>Error\<close> returns the message and nothing of the wrapped cause (two errors
  that differ only in the cause have the same text), and \<open>Unwrap\<close> returns the
  cause.
\<close>

theorem AuthError_accessors:
  "AuthError_Error e = Message e \<and> AuthError_Unwrap e = Err e
   \<and> AuthError_Error (AuthError code msg cause) = msg
   \<and> AuthError_Unwrap (AuthError code msg cause) = cause"
  by (simp add: AuthError_Error_def AuthError_Unwrap_def)

text \<open>
  C8, as stated, fails: \<open>Roles\<close> is a slice, so a principal may list a role twice
  and two principals with the same set of roles in a different order are different
  values.
\<close>

theorem Roles_not_a_set:
  "\<not> distinct (Roles \<lparr>ID = ''1'', Username = ''ana'', Roles = [''admin'', ''admin''],
        Metadata = Map.empty\<rparr>)
   \<and> set (Roles \<lparr>ID = ''1'', Username = ''ana'', Roles = [''admin'', ''editor''],
        Metadata = Map.empty\<rparr>)
     = set (Roles \<lparr>ID = ''1'', Username = ''ana'', Roles = [''editor'', ''admin''],
        Metadata = Map.empty\<rparr>)
   \<and> \<lparr>ID = ''1'', Username = ''ana'', Roles = [''admin'', ''editor''], Metadata = Map.empty\<rparr>
     \<noteq> \<lparr>ID = ''1'', Username = ''ana'', Roles = [''editor'', ''admin''], Metadata = Map.empty\<rparr>"
  by auto

text \<open>
  C8, amended. \<open>Roles\<close> is a sequence of strings: the field holds exactly the list
  it was given, in its order and with its repetitions; two principals are equal
  only if their role lists are equal; and role names are compared exactly, so
  \<^verbatim>\<open>"Admin"\<close> is not \<^verbatim>\<open>"admin"\<close>.
\<close>

theorem Roles_is_a_sequence:
  "Roles (u\<lparr>Roles := rs\<rparr>) = rs
   \<and> ((u\<lparr>Roles := rs\<rparr> = u\<lparr>Roles := rs'\<rparr>) = (rs = rs'))
   \<and> Roles (u\<lparr>Roles := [''Admin'']\<rparr>) \<noteq> Roles (u\<lparr>Roles := [''admin'']\<rparr>)"
proof -
  have "(u\<lparr>Roles := rs\<rparr> = u\<lparr>Roles := rs'\<rparr>) = (rs = rs')"
    by (cases u) simp
  then show ?thesis by simp
qed

end
